theory Spec2Isabelle
  imports Main "HOL-Library.AList"
begin

section \<open>Strings and characters\<close>

text \<open>
  A JavaScript string is a sequence of UTF-16 code units. The model uses \<^typ>\<open>string\<close>,
  whose characters are the code units below 256 (the Latin-1 range); every literal of the
  modelled code is ASCII. The character classes below are the ECMAScript ones cut down to
  that range: \<open>\s\<close> is TAB, LF, VT, FF, CR, SPACE and NBSP; a line terminator (what
  \<open>.\<close> refuses and what \<open>^\<close>, \<open>$\<close> look at under the \<open>m\<close> flag) is LF or CR; \<open>\w\<close> is
  an ASCII letter, digit or underscore.
\<close>

definition lower_letters :: string where
  "lower_letters = ''abcdefghijklmnopqrstuvwxyz''"

definition upper_letters :: string where
  "upper_letters = ''ABCDEFGHIJKLMNOPQRSTUVWXYZ''"

definition digits :: string where
  "digits = ''0123456789''"

definition is_word :: "char \<Rightarrow> bool" where
  "is_word c \<longleftrightarrow> c \<in> set (lower_letters @ upper_letters @ digits @ ''_'')"

definition is_space :: "char \<Rightarrow> bool" where
  "is_space c \<longleftrightarrow> c \<in> set [CHR 0x09, CHR 0x0A, CHR 0x0B, CHR 0x0C, CHR 0x0D, CHR 0x20, CHR 0xA0]"

definition is_line_terminator :: "char \<Rightarrow> bool" where
  "is_line_terminator c \<longleftrightarrow> c = CHR 0x0A \<or> c = CHR 0x0D"

text \<open>
  \<open>String.prototype.toLowerCase\<close> on the Latin-1 range: the ASCII capitals and the
  capitals \<open>0xC0\<close> to \<open>0xDE\<close> (without the multiplication sign \<open>0xD7\<close>) move up by 32.
  Under the \<open>i\<close> flag a character matches an ASCII letter of a pattern exactly when the
  two agree after this conversion.
\<close>

definition toLowerChar :: "char \<Rightarrow> char" where
  "toLowerChar c =
     (let n = (of_char c :: nat)
      in if 65 \<le> n \<and> n \<le> 90 then char_of (n + 32)
         else if 192 \<le> n \<and> n \<le> 222 \<and> n \<noteq> 215 then char_of (n + 32)
         else c)"

definition toLowerCase :: "string \<Rightarrow> string" where
  "toLowerCase s = map toLowerChar s"

text \<open>\<open>String.prototype.trim\<close>.\<close>

definition trim :: "string \<Rightarrow> string" where
  "trim s = rev (dropWhile is_space (rev (dropWhile is_space s)))"

text \<open>\<open>s.split(",")\<close>: the pieces between the commas; the empty string gives one empty piece.\<close>

fun split_comma :: "string \<Rightarrow> string list" where
  "split_comma [] = [[]]"
| "split_comma (c # cs) =
     (if c = CHR '','' then [] # split_comma cs
      else case split_comma cs of p # ps \<Rightarrow> (c # p) # ps | [] \<Rightarrow> [[c]])"

text \<open>\<open>Array.prototype.join\<close> on a list of strings.\<close>

fun js_join :: "string \<Rightarrow> string list \<Rightarrow> string" where
  "js_join sep [] = []"
| "js_join sep [x] = x"
| "js_join sep (x # y # ys) = x @ sep @ js_join sep (y # ys)"

text \<open>
  \<open>[...new Set(items)]\<close>: the elements in first-seen order, each once. The fold is the
  insertion loop of the \<open>Set\<close> constructor.
\<close>

definition set_insert :: "'a \<Rightarrow> 'a list \<Rightarrow> 'a list" where
  "set_insert x acc = (if x \<in> set acc then acc else acc @ [x])"

definition uniq :: "'a list \<Rightarrow> 'a list" where
  "uniq items = fold set_insert items []"

section \<open>The tool catalogs of analyzer.ts\<close>

definition FACTORY_TOOLS :: "string list" where
  "FACTORY_TOOLS =
    [''Read'', ''LS'', ''Grep'', ''Glob'',
     ''Create'', ''Edit'', ''ApplyPatch'', ''MultiEdit'',
     ''Execute'',
     ''WebSearch'', ''FetchUrl'',
     ''TodoWrite'', ''Task'', ''Skill'',
     ''read-only'', ''edit'', ''execute'', ''web'', ''mcp'']"

text \<open>
  \<open>TOOL_MAPPING\<close> is an object literal of type \<open>Record<string, string | null>\<close>. Its own
  properties are the table below (\<open>None\<close> is the literal \<open>null\<close>).
\<close>

definition TOOL_MAPPING_own :: "(string \<times> string option) list" where
  "TOOL_MAPPING_own =
    [(''Read'', Some ''Read''),
     (''Write'', Some ''Create''),
     (''Edit'', Some ''Edit''),
     (''MultiEdit'', Some ''MultiEdit''),
     (''Bash'', Some ''Execute''),
     (''Execute'', Some ''Execute''),
     (''Glob'', Some ''Glob''),
     (''Grep'', Some ''Grep''),
     (''LS'', Some ''LS''),
     (''WebSearch'', Some ''WebSearch''),
     (''FetchUrl'', Some ''FetchUrl''),
     (''TodoWrite'', Some ''TodoWrite''),
     (''Task'', Some ''Task''),
     (''Create'', Some ''Create''),
     (''ApplyPatch'', Some ''ApplyPatch''),
     (''Skill'', Some ''Skill''),
     (''NotebookEdit'', None),
     (''BrowseURL'', None),
     (''WebFetch'', Some ''FetchUrl''),
     (''AskUserQuestion'', None)]"

text \<open>
  The code reads the table with a bracket lookup, \<open>TOOL_MAPPING[tool]\<close>, on an object
  created by an object literal. Such a lookup walks the prototype chain, so for a key that
  is not an own property it finds the members every object inherits from
  \<open>Object.prototype\<close>. These are functions (for \<open>__proto__\<close>, the prototype object
  itself): values that are neither a string nor \<open>null\<close> nor \<open>undefined\<close>, and truthy.
\<close>

definition Object_prototype_keys :: "string list" where
  "Object_prototype_keys =
    [''constructor'', ''hasOwnProperty'', ''isPrototypeOf'', ''propertyIsEnumerable'',
     ''toLocaleString'', ''toString'', ''valueOf'', ''__proto__'',
     ''__defineGetter__'', ''__defineSetter__'', ''__lookupGetter__'', ''__lookupSetter__'']"

datatype lookup =
    Own_string string
  | Own_null
  | Inherited string
  | Undefined

definition TOOL_MAPPING :: "string \<Rightarrow> lookup" where
  "TOOL_MAPPING tool =
    (case map_of TOOL_MAPPING_own tool of
       Some (Some v) \<Rightarrow> Own_string v
     | Some None \<Rightarrow> Own_null
     | None \<Rightarrow> if tool \<in> set Object_prototype_keys then Inherited tool else Undefined)"

text \<open>
  What the code pushes on its \<open>mapped\<close> array: a destination token, or (through the
  inherited members) a value that is not a string at all.
\<close>

datatype tool_value =
    Tok string
  | Proto_member string

subsection \<open>The two token patterns\<close>

text \<open>
  \<open>MCP_TOOL_PATTERN = /^mcp__([a-zA-Z0-9_-]+)(?:__(.+))?$/\<close>. The function returns capture
  group 1 of a match. The class of group 1 contains the underscore and \<open>+\<close> is greedy, so the
  matcher first gives group 1 the longest run of class characters and backs off one
  character at a time; at each length the rest must be empty, or \<open>__\<close> followed by at
  least one character and no line terminator.
\<close>

definition is_name_char :: "char \<Rightarrow> bool" where
  "is_name_char c \<longleftrightarrow> c \<in> set (lower_letters @ upper_letters @ digits @ ''_-'')"

definition mcp_tail_ok :: "string \<Rightarrow> bool" where
  "mcp_tail_ok r \<longleftrightarrow>
     r = [] \<or> (take 2 r = ''__'' \<and> drop 2 r \<noteq> [] \<and> \<not> list_ex is_line_terminator (drop 2 r))"

fun mcp_try :: "nat \<Rightarrow> string \<Rightarrow> string option" where
  "mcp_try 0 s = None"
| "mcp_try (Suc n) s =
     (if mcp_tail_ok (drop (Suc n) s) then Some (take (Suc n) s) else mcp_try n s)"

definition MCP_TOOL_PATTERN :: "string \<Rightarrow> string option" where
  "MCP_TOOL_PATTERN tool =
     (if take 5 tool = ''mcp__''
      then mcp_try (length (takeWhile is_name_char (drop 5 tool))) (drop 5 tool)
      else None)"

text \<open>
  \<open>BASH_RESTRICTION_PATTERN = /^(Bash|Execute)\(.+\)$/\<close>: one of the two names, an opening
  parenthesis, at least one character, and a closing parenthesis as the last character,
  with no line terminator in between.
\<close>

definition paren_body_ok :: "string \<Rightarrow> bool" where
  "paren_body_ok r \<longleftrightarrow>
     2 \<le> length r \<and> last r = CHR '')'' \<and> \<not> list_ex is_line_terminator (butlast r)"

definition BASH_RESTRICTION_PATTERN :: "string \<Rightarrow> bool" where
  "BASH_RESTRICTION_PATTERN tool \<longleftrightarrow>
     (take 5 tool = ''Bash('' \<and> paren_body_ok (drop 5 tool)) \<or>
     (take 8 tool = ''Execute('' \<and> paren_body_ok (drop 8 tool))"

subsection \<open>analyzeTools\<close>

record tool_analysis =
  t_mapped :: "tool_value list"
  t_unmapped :: "string list"
  t_requiredMcps :: "string list"
  t_issues :: "string list"
  t_warnings :: "string list"
  t_suggestions :: "string list"

definition ask_warning :: string where
  "ask_warning = ''AskUserQuestion not available - agent will use conversation flow for clarification''"

definition ask_suggestion :: string where
  "ask_suggestion = ''Consider adding 'Ask clarifying questions before proceeding' to the prompt''"

definition no_equivalent_issue :: "string \<Rightarrow> string" where
  "no_equivalent_issue tool = ''Tool '' @ [CHR 0x27] @ tool @ [CHR 0x27] @ '' has no Factory equivalent''"

definition unknown_tool_issue :: "string \<Rightarrow> string" where
  "unknown_tool_issue tool = ''Unknown tool '' @ [CHR 0x27] @ tool @ [CHR 0x27] @ '' - may be Claude-specific''"

text \<open>One iteration of the loop over the tools, in the order of the source's checks.\<close>

definition analyze_tool :: "tool_analysis \<Rightarrow> string \<Rightarrow> tool_analysis" where
  "analyze_tool a tool =
    (if tool \<in> set FACTORY_TOOLS then a\<lparr>t_mapped := t_mapped a @ [Tok tool]\<rparr>
     else case MCP_TOOL_PATTERN tool of
       Some mcpServer \<Rightarrow>
         a\<lparr>t_requiredMcps :=
              (if mcpServer \<in> set (t_requiredMcps a) then t_requiredMcps a
               else t_requiredMcps a @ [mcpServer]),
           t_mapped := t_mapped a @ [Tok tool]\<rparr>
     | None \<Rightarrow>
         if BASH_RESTRICTION_PATTERN tool then a\<lparr>t_mapped := t_mapped a @ [Tok ''Execute'']\<rparr>
         else case TOOL_MAPPING tool of
           Own_string m \<Rightarrow>
             if m \<noteq> [] then a\<lparr>t_mapped := t_mapped a @ [Tok m]\<rparr>
             else a\<lparr>t_unmapped := t_unmapped a @ [tool],
                    t_issues := t_issues a @ [unknown_tool_issue tool]\<rparr>
         | Inherited k \<Rightarrow> a\<lparr>t_mapped := t_mapped a @ [Proto_member k]\<rparr>
         | Own_null \<Rightarrow>
             if tool = ''AskUserQuestion''
             then a\<lparr>t_unmapped := t_unmapped a @ [tool],
                    t_warnings := t_warnings a @ [ask_warning],
                    t_suggestions := t_suggestions a @ [ask_suggestion]\<rparr>
             else a\<lparr>t_unmapped := t_unmapped a @ [tool],
                    t_issues := t_issues a @ [no_equivalent_issue tool]\<rparr>
         | Undefined \<Rightarrow>
             a\<lparr>t_unmapped := t_unmapped a @ [tool],
               t_issues := t_issues a @ [unknown_tool_issue tool]\<rparr>)"

definition empty_tool_analysis :: tool_analysis where
  "empty_tool_analysis =
     \<lparr>t_mapped = [], t_unmapped = [], t_requiredMcps = [], t_issues = [], t_warnings = [],
      t_suggestions = []\<rparr>"

definition mcp_warning :: "string list \<Rightarrow> string" where
  "mcp_warning servers = ''Requires MCP servers: '' @ js_join '', '' servers"

definition analyzeTools :: "string list \<Rightarrow> tool_analysis" where
  "analyzeTools tools =
    (let a = foldl analyze_tool empty_tool_analysis tools;
         w = (if t_requiredMcps a \<noteq> [] then t_warnings a @ [mcp_warning (t_requiredMcps a)]
              else t_warnings a)
     in a\<lparr>t_mapped := uniq (t_mapped a), t_warnings := w\<rparr>)"

subsection \<open>mapToolsForFactory\<close>

definition map_tool :: "tool_value list \<Rightarrow> string \<Rightarrow> tool_value list" where
  "map_tool mapped tool =
    (if tool \<in> set FACTORY_TOOLS then mapped @ [Tok tool]
     else if MCP_TOOL_PATTERN tool \<noteq> None then mapped @ [Tok tool]
     else if BASH_RESTRICTION_PATTERN tool then mapped @ [Tok ''Execute'']
     else case TOOL_MAPPING tool of
       Own_string m \<Rightarrow> if m \<noteq> [] then mapped @ [Tok m] else mapped
     | Inherited k \<Rightarrow> mapped @ [Proto_member k]
     | Own_null \<Rightarrow> mapped
     | Undefined \<Rightarrow> mapped)"

definition mapToolsForFactory :: "string list \<Rightarrow> tool_value list" where
  "mapToolsForFactory tools = uniq (foldl map_tool [] tools)"

section \<open>Values of the metadata block\<close>

text \<open>
  The metadata block is what the gray-matter library returns as \<open>parsed.data\<close>: an object
  whose values have type \<open>unknown\<close>. The code observes such a value through its
  truthiness, \<open>Array.isArray\<close>, \<open>typeof v === "string"\<close> and \<open>String(v)\<close>. A number, a date
  or a nested object is \<open>JOther\<close>, given by exactly what the code can observe of it: whether
  it is truthy and what \<open>String\<close> makes of it.
\<close>

datatype jsval =
    JUndefined
  | JNull
  | JBool bool
  | JStr string
  | JArr "jsval list"
  | JOther bool string

fun truthy :: "jsval \<Rightarrow> bool" where
  "truthy JUndefined = False"
| "truthy JNull = False"
| "truthy (JBool b) = b"
| "truthy (JStr s) = (s \<noteq> [])"
| "truthy (JArr xs) = True"
| "truthy (JOther t s) = t"

text \<open>
  \<open>String(v)\<close>. An array is its elements joined by commas, where \<open>null\<close> and \<open>undefined\<close>
  elements give the empty string.
\<close>

fun js_String :: "jsval \<Rightarrow> string" where
  "js_String JUndefined = ''undefined''"
| "js_String JNull = ''null''"
| "js_String (JBool b) = (if b then ''true'' else ''false'')"
| "js_String (JStr s) = s"
| "js_String (JArr xs) =
     js_join '','' (map (\<lambda>x. if x = JUndefined \<or> x = JNull then [] else js_String x) xs)"
| "js_String (JOther t s) = s"

type_synonym frontmatter = "(string \<times> jsval) list"

text \<open>A property read \<open>frontmatter.key\<close>: \<open>undefined\<close> when the key is absent.\<close>

definition get_prop :: "frontmatter \<Rightarrow> string \<Rightarrow> jsval" where
  "get_prop fm key = (case map_of fm key of Some v \<Rightarrow> v | None \<Rightarrow> JUndefined)"

text \<open>
  The gray-matter call \<open>matter(content)\<close> is a library outside the repository: it is a
  parameter of the model. It returns the metadata and the body, or \<open>None\<close> when it throws.
\<close>

type_synonym matter = "string \<Rightarrow> (frontmatter \<times> string) option"

definition parseTools :: "jsval \<Rightarrow> string list" where
  "parseTools toolsValue =
    (if \<not> truthy toolsValue then []
     else case toolsValue of
       JArr xs \<Rightarrow> map js_String xs
     | JStr s \<Rightarrow> filter (\<lambda>t. t \<noteq> []) (map trim (split_comma s))
     | _ \<Rightarrow> [])"

section \<open>Body checks of analyzer.ts\<close>

text \<open>
  \<open>re.test(content)\<close> for a pattern without the \<open>g\<close> flag: is there a position where the
  pattern matches. A matcher gets the character before the position (for \<open>\b\<close> and \<open>^\<close>)
  and the text from the position on.
\<close>

fun exists_match :: "(char option \<Rightarrow> string \<Rightarrow> bool) \<Rightarrow> char option \<Rightarrow> string \<Rightarrow> bool" where
  "exists_match m prev [] = m prev []"
| "exists_match m prev (c # cs) = (if m prev (c # cs) then True else exists_match m (Some c) cs)"

definition test :: "(char option \<Rightarrow> string \<Rightarrow> bool) \<Rightarrow> string \<Rightarrow> bool" where
  "test m content = exists_match m None content"

definition starts_with :: "string \<Rightarrow> string \<Rightarrow> bool" where
  "starts_with p s \<longleftrightarrow> take (length p) s = p"

text \<open>The same under the \<open>i\<close> flag, for a pattern written in lower case.\<close>

definition starts_with_ci :: "string \<Rightarrow> string \<Rightarrow> bool" where
  "starts_with_ci p s \<longleftrightarrow> toLowerCase (take (length p) s) = p"

text \<open>
  \<open>\s+\<close> followed by something that is no white space: the greedy run is all the white
  space there is, and it must not be empty. The result is the text after the run.
\<close>

definition spaces1 :: "string \<Rightarrow> string option" where
  "spaces1 s = (case s of [] \<Rightarrow> None | c # cs \<Rightarrow> if is_space c then Some (dropWhile is_space cs) else None)"

text \<open>\<open>\b\<close> between the character before and the character after a position.\<close>

definition word_before :: "char option \<Rightarrow> bool" where
  "word_before prev = (case prev of None \<Rightarrow> False | Some c \<Rightarrow> is_word c)"

definition word_after :: "string \<Rightarrow> bool" where
  "word_after s = (case s of [] \<Rightarrow> False | c # cs \<Rightarrow> is_word c)"

text \<open>\<open>^\<close> under the \<open>m\<close> flag: the start of the text or the position after a line terminator.\<close>

definition line_start :: "char option \<Rightarrow> bool" where
  "line_start prev = (case prev of None \<Rightarrow> True | Some c \<Rightarrow> is_line_terminator c)"

text \<open>\<open>/\/claude\s+/i\<close>\<close>

definition re_slash_claude :: "char option \<Rightarrow> string \<Rightarrow> bool" where
  "re_slash_claude prev s \<longleftrightarrow> starts_with_ci ''/claude'' s \<and> spaces1 (drop 7 s) \<noteq> None"

text \<open>\<open>/claude\s+code\s+specific/i\<close>\<close>

definition re_claude_code_specific :: "char option \<Rightarrow> string \<Rightarrow> bool" where
  "re_claude_code_specific prev s \<longleftrightarrow>
     starts_with_ci ''claude'' s \<and>
     (case spaces1 (drop 6 s) of
        None \<Rightarrow> False
      | Some r \<Rightarrow> starts_with_ci ''code'' r \<and>
          (case spaces1 (drop 4 r) of None \<Rightarrow> False | Some q \<Rightarrow> starts_with_ci ''specific'' q))"

text \<open>\<open>/NotebookEdit/\<close>\<close>

definition re_NotebookEdit :: "char option \<Rightarrow> string \<Rightarrow> bool" where
  "re_NotebookEdit prev s \<longleftrightarrow> starts_with ''NotebookEdit'' s"

text \<open>\<open>/@claude/i\<close>\<close>

definition re_at_claude :: "char option \<Rightarrow> string \<Rightarrow> bool" where
  "re_at_claude prev s \<longleftrightarrow> starts_with_ci ''@claude'' s"

definition CLAUDE_SPECIFIC_PATTERNS :: "((char option \<Rightarrow> string \<Rightarrow> bool) \<times> string) list" where
  "CLAUDE_SPECIFIC_PATTERNS =
    [(re_slash_claude, [CHR 0x5C] @ ''/claude'' @ [CHR 0x5C] @ ''s+''),
     (re_claude_code_specific, ''claude'' @ [CHR 0x5C] @ ''s+code'' @ [CHR 0x5C] @ ''s+specific''),
     (re_NotebookEdit, ''NotebookEdit''),
     (re_at_claude, ''@claude'')]"

text \<open>\<open>/\bAskUserQuestion\b/\<close>\<close>

definition re_word_AskUserQuestion :: "char option \<Rightarrow> string \<Rightarrow> bool" where
  "re_word_AskUserQuestion prev s \<longleftrightarrow>
     \<not> word_before prev \<and> starts_with ''AskUserQuestion'' s \<and> \<not> word_after (drop 15 s)"

text \<open>
  \<open>/^\s*agent\s+\S+/m\<close> and \<open>/^\s*skill\s+\S+/m\<close>: at a line start, any white space (line
  terminators included), the keyword in lower case, white space, and a character that is
  no white space.
\<close>

definition re_line_keyword :: "string \<Rightarrow> char option \<Rightarrow> string \<Rightarrow> bool" where
  "re_line_keyword kw prev s \<longleftrightarrow>
     line_start prev \<and>
     (let r = dropWhile is_space s
      in starts_with kw r \<and>
         (case spaces1 (drop (length kw) r) of None \<Rightarrow> False | Some q \<Rightarrow> q \<noteq> []))"

text \<open>\<open>/\b\.claude\//\<close>: the dot is no word character, so \<open>\b\<close> asks for one before it.\<close>

definition re_dot_claude :: "char option \<Rightarrow> string \<Rightarrow> bool" where
  "re_dot_claude prev s \<longleftrightarrow> word_before prev \<and> starts_with ''.claude/'' s"

definition LEGACY_RUNTIME_PATTERNS :: "((char option \<Rightarrow> string \<Rightarrow> bool) \<times> string \<times> string) list" where
  "LEGACY_RUNTIME_PATTERNS =
    [(re_word_AskUserQuestion,
      ''References AskUserQuestion (not available in Factory) - should ask questions in normal chat'',
      ''Replace '' @ [CHR 0x27] @ ''AskUserQuestion'' @ [CHR 0x27] @
        '' references with plain-language prompts to ask the user''),
     (re_line_keyword ''agent'',
      ''Contains '' @ [CHR 0x27] @ ''agent <name>'' @ [CHR 0x27] @
        '' invocations - Factory uses the Task tool + subagent_type'',
      ''Replace '' @ [CHR 0x27] @ ''agent <name>'' @ [CHR 0x27] @
        '' with guidance to use the Task tool (subagent_type: <name>)''),
     (re_line_keyword ''skill'',
      ''Contains '' @ [CHR 0x27] @ ''skill <name>'' @ [CHR 0x27] @
        '' invocations - Factory uses the Skill tool'',
      ''Replace '' @ [CHR 0x27] @ ''skill <name>'' @ [CHR 0x27] @
        '' with guidance to use the Skill tool''),
     (re_dot_claude,
      ''References .claude/ paths - Factory uses .factory/ for most local automation/config'',
      ''If this is a Factory workflow, update paths to .factory/ equivalents'')]"

definition checkClaudeSpecificContent :: "string \<Rightarrow> string list" where
  "checkClaudeSpecificContent content =
     map (\<lambda>(pattern, source). ''Contains Claude-specific reference: '' @ source)
       (filter (\<lambda>(pattern, source). test pattern content) CLAUDE_SPECIFIC_PATTERNS)"

definition checkLegacyRuntimeContent :: "string \<Rightarrow> string list \<times> string list" where
  "checkLegacyRuntimeContent content =
     (let hits = filter (\<lambda>(re, warning, suggestion). test re content) LEGACY_RUNTIME_PATTERNS
      in (uniq (map (\<lambda>(re, warning, suggestion). warning) hits),
          uniq (map (\<lambda>(re, warning, suggestion). suggestion) hits)))"

section \<open>The analyzers\<close>

datatype srcType = Local | Remote

record DiscoveredFile =
  file_name :: string
  file_srcType :: srcType
  file_src :: string

record SkillFile =
  relativePath :: string
  sf_src :: string
  sf_srcType :: srcType

record DiscoveredSkill =
  skill_name :: string
  skill_srcType :: srcType
  srcDir :: string
  files :: "SkillFile list"

record AnalysisResult =
  compatible :: bool
  score :: int
  issues :: "string list"
  warnings :: "string list"
  mappedTools :: "tool_value list"
  unmappedTools :: "string list"
  requiredMcps :: "string list"
  suggestions :: "string list"

text \<open>
  \<open>fetchContent(src, srcType)\<close> reads a file or a URL: the fetch collaborator is a
  parameter. \<open>Inl message\<close> is a thrown \<open>Error\<close> with that message, \<open>Inr text\<close> the content.
\<close>

type_synonym fetcher = "string \<Rightarrow> srcType \<Rightarrow> string + string"

text \<open>The result of the \<open>catch\<close> branch around the fetch, the same in the three analyzers.\<close>

definition fetch_failed :: "string \<Rightarrow> AnalysisResult" where
  "fetch_failed message =
     \<lparr>compatible = False, score = 0,
      issues = [''Failed to fetch content: '' @ message],
      warnings = [], mappedTools = [], unmappedTools = [], requiredMcps = [], suggestions = []\<rparr>"

text \<open>
  The score: 100, minus 20 for each issue, minus 5 for each warning, brought into
  \<open>[0, 100]\<close> by \<open>Math.max(0, Math.min(100, score))\<close>.
\<close>

definition calculate_score :: "string list \<Rightarrow> string list \<Rightarrow> int" where
  "calculate_score iss warns =
     max 0 (min 100 (100 - int (length iss) * 20 - int (length warns) * 5))"

text \<open>\<open>/^[a-z0-9_-]+$/i\<close> on the name.\<close>

definition name_pattern :: "string \<Rightarrow> bool" where
  "name_pattern s \<longleftrightarrow> s \<noteq> [] \<and> list_all is_name_char s"

text \<open>
  The \<open>try\<close> around \<open>matter(content)\<close>: the metadata, the body and the warnings so far.
\<close>

definition parse_frontmatter :: "matter \<Rightarrow> string \<Rightarrow> frontmatter \<times> string \<times> string list" where
  "parse_frontmatter matter content =
     (case matter content of
        Some (data, body) \<Rightarrow> (data, body, [])
      | None \<Rightarrow> ([], [], [''Failed to parse YAML frontmatter'']))"

definition missing_name :: string where
  "missing_name = ''Missing required '' @ [CHR 0x27] @ ''name'' @ [CHR 0x27] @ '' field''"

definition missing_description :: string where
  "missing_description = ''Missing '' @ [CHR 0x27] @ ''description'' @ [CHR 0x27] @ '' field (recommended)''"

definition analyzeAgent :: "fetcher \<Rightarrow> matter \<Rightarrow> DiscoveredFile \<Rightarrow> AnalysisResult" where
  "analyzeAgent fetchContent matter agent =
    (case fetchContent (file_src agent) (file_srcType agent) of
       Inl message \<Rightarrow> fetch_failed message
     | Inr content \<Rightarrow>
        (case parse_frontmatter matter content of (frontmatter, body, warnings0) \<Rightarrow>
          let name = (if truthy (get_prop frontmatter ''name'') then get_prop frontmatter ''name''
                      else JStr (file_name agent));
              issues1 = (if \<not> truthy name then [missing_name] else []);
              warnings1 = warnings0 @
                (if truthy name \<and> \<not> name_pattern (js_String name)
                 then [''Name should be lowercase with hyphens/underscores only''] else []);
              toolAnalysis = analyzeTools (parseTools (get_prop frontmatter ''tools''));
              issues2 = issues1 @ t_issues toolAnalysis;
              warnings2 = warnings1 @ t_warnings toolAnalysis;
              suggestions2 = t_suggestions toolAnalysis @
                (if t_unmapped toolAnalysis \<noteq> []
                 then [''Consider removing or replacing: '' @ js_join '', '' (t_unmapped toolAnalysis)]
                 else []);
              warnings3 = warnings2 @ checkClaudeSpecificContent body;
              legacy = checkLegacyRuntimeContent body;
              warnings4 = warnings3 @ fst legacy;
              suggestions4 = suggestions2 @ snd legacy;
              warnings5 = warnings4 @
                (if \<not> truthy (get_prop frontmatter ''description'') then [missing_description] else []);
              nonAskUserUnmapped = filter (\<lambda>t. t \<noteq> ''AskUserQuestion'') (t_unmapped toolAnalysis)
          in \<lparr>compatible = (nonAskUserUnmapped = []),
              score = calculate_score issues2 warnings5,
              issues = issues2,
              warnings = warnings5,
              mappedTools = t_mapped toolAnalysis,
              unmappedTools = t_unmapped toolAnalysis,
              requiredMcps = t_requiredMcps toolAnalysis,
              suggestions = suggestions4\<rparr>))"

definition analyzeCommand :: "fetcher \<Rightarrow> matter \<Rightarrow> DiscoveredFile \<Rightarrow> AnalysisResult" where
  "analyzeCommand fetchContent matter command =
    (case fetchContent (file_src command) (file_srcType command) of
       Inl message \<Rightarrow> fetch_failed message
     | Inr content \<Rightarrow>
        (case parse_frontmatter matter content of (frontmatter, body, warnings0) \<Rightarrow>
          let toolAnalysis = analyzeTools (parseTools (get_prop frontmatter ''allowed-tools''));
              issues2 = t_issues toolAnalysis;
              warnings2 = warnings0 @ t_warnings toolAnalysis;
              suggestions2 = t_suggestions toolAnalysis;
              warnings3 = warnings2 @ checkClaudeSpecificContent body;
              legacy = checkLegacyRuntimeContent body;
              warnings4 = warnings3 @ fst legacy;
              suggestions4 = suggestions2 @ snd legacy;
              nonAskUserUnmapped = filter (\<lambda>t. t \<noteq> ''AskUserQuestion'') (t_unmapped toolAnalysis)
          in \<lparr>compatible = (nonAskUserUnmapped = []),
              score = calculate_score issues2 warnings4,
              issues = issues2,
              warnings = warnings4,
              mappedTools = t_mapped toolAnalysis,
              unmappedTools = t_unmapped toolAnalysis,
              requiredMcps = t_requiredMcps toolAnalysis,
              suggestions = suggestions4\<rparr>))"

text \<open>
  \<open>skill.files.find(...)\<close>: the first file whose relative path is, in lower case,
  \<open>skill.md\<close> or \<open>skill.mdx\<close>.
\<close>

definition is_main_file :: "SkillFile \<Rightarrow> bool" where
  "is_main_file f \<longleftrightarrow>
     toLowerCase (relativePath f) = ''skill.md'' \<or> toLowerCase (relativePath f) = ''skill.mdx''"

definition analyzeSkill :: "fetcher \<Rightarrow> matter \<Rightarrow> DiscoveredSkill \<Rightarrow> AnalysisResult" where
  "analyzeSkill fetchContent matter skill =
    (case find is_main_file (files skill) of
       None \<Rightarrow>
         \<lparr>compatible = False, score = 0, issues = [''Missing SKILL.md file''],
          warnings = [], mappedTools = [], unmappedTools = [], requiredMcps = [], suggestions = []\<rparr>
     | Some skillFile \<Rightarrow>
        (case fetchContent (sf_src skillFile) (sf_srcType skillFile) of
           Inl message \<Rightarrow> fetch_failed message
         | Inr content \<Rightarrow>
            (case parse_frontmatter matter content of (frontmatter, body, warnings0) \<Rightarrow>
              let issues1 = (if \<not> truthy (get_prop frontmatter ''name'') then [missing_name] else []);
                  warnings1 = warnings0 @
                    (if \<not> truthy (get_prop frontmatter ''description'') then [missing_description] else []);
                  tools = parseTools (get_prop frontmatter ''allowed-tools'');
                  toolAnalysis = (if tools \<noteq> [] then analyzeTools tools else empty_tool_analysis);
                  issues2 = issues1 @ t_issues toolAnalysis;
                  warnings2 = warnings1 @ t_warnings toolAnalysis;
                  suggestions2 = t_suggestions toolAnalysis;
                  warnings3 = warnings2 @ checkClaudeSpecificContent body;
                  legacy = checkLegacyRuntimeContent body;
                  warnings4 = warnings3 @ fst legacy;
                  suggestions4 = suggestions2 @ snd legacy;
                  nonAskUserUnmapped = filter (\<lambda>t. t \<noteq> ''AskUserQuestion'') (t_unmapped toolAnalysis)
              in \<lparr>compatible = (nonAskUserUnmapped = []),
                  score = calculate_score issues2 warnings4,
                  issues = issues2,
                  warnings = warnings4,
                  mappedTools = t_mapped toolAnalysis,
                  unmappedTools = t_unmapped toolAnalysis,
                  requiredMcps = t_requiredMcps toolAnalysis,
                  suggestions = suggestions4\<rparr>)))"

section \<open>The normalizer\<close>

text \<open>
  \<open>text.replace(re, ...)\<close> for a pattern with the \<open>g\<close> flag: the scan goes from left to
  right; where the pattern matches, the match is replaced and the scan goes on behind it.
  A matcher returns the length of its match (never 0 for the patterns of this code) and
  what the replacement needs of it. The scan keeps the untouched characters as \<open>Inl\<close> and
  the matches as \<open>Inr\<close>; the counter says how many characters of a match are still to skip.
\<close>

fun replace_scan ::
  "(char option \<Rightarrow> string \<Rightarrow> (nat \<times> 'a) option) \<Rightarrow> nat \<Rightarrow> char option \<Rightarrow> string \<Rightarrow> (char + 'a) list" where
  "replace_scan m k prev [] = []"
| "replace_scan m (Suc k) prev (c # cs) = replace_scan m k (Some c) cs"
| "replace_scan m 0 prev (c # cs) =
     (case m prev (c # cs) of
        Some (n, a) \<Rightarrow> Inr a # replace_scan m (n - 1) (Some c) cs
      | None \<Rightarrow> Inl c # replace_scan m 0 (Some c) cs)"

definition render :: "('a \<Rightarrow> string) \<Rightarrow> (char + 'a) list \<Rightarrow> string" where
  "render f xs = concat (map (\<lambda>x. case x of Inl c \<Rightarrow> [c] | Inr a \<Rightarrow> f a) xs)"

definition hits :: "(char + 'a) list \<Rightarrow> 'a list" where
  "hits xs = concat (map (\<lambda>x. case x of Inl c \<Rightarrow> [] | Inr a \<Rightarrow> [a]) xs)"

definition replace_all :: "(char option \<Rightarrow> string \<Rightarrow> nat option) \<Rightarrow> string \<Rightarrow> string \<Rightarrow> string" where
  "replace_all m replacement s =
     render (\<lambda>u. replacement) (replace_scan (\<lambda>prev r. map_option (\<lambda>n. (n, ())) (m prev r)) 0 None s)"

text \<open>
  \<open>/\bUse\s+`?AskUserQuestion`?\b/gi\<close> and the same with \<open>Invoke\<close>; the verb is given in
  lower case. After the name, the optional backquote is taken when a word character
  follows it; otherwise the match ends at the name, which then must not be followed by a
  word character.
\<close>

definition re_verb_AskUserQuestion :: "string \<Rightarrow> char option \<Rightarrow> string \<Rightarrow> nat option" where
  "re_verb_AskUserQuestion verb prev s =
     (if \<not> word_before prev \<and> starts_with_ci verb s
      then case spaces1 (drop (length verb) s) of
        None \<Rightarrow> None
      | Some r \<Rightarrow>
          let q = (if starts_with ''`'' r then drop 1 r else r)
          in if starts_with_ci ''askuserquestion'' q
             then let t = drop 15 q
                  in if starts_with ''`'' t \<and> word_after (drop 1 t) then Some (length s - length (drop 1 t))
                     else if \<not> word_after t then Some (length s - length t)
                     else None
             else None
      else None)"

text \<open>\<open>/`AskUserQuestion`/g\<close>\<close>

definition re_quoted_AskUserQuestion :: "char option \<Rightarrow> string \<Rightarrow> nat option" where
  "re_quoted_AskUserQuestion prev s = (if starts_with ''`AskUserQuestion`'' s then Some 17 else None)"

text \<open>\<open>/\bAskUserQuestion\b/g\<close>\<close>

definition re_bare_AskUserQuestion :: "char option \<Rightarrow> string \<Rightarrow> nat option" where
  "re_bare_AskUserQuestion prev s = (if re_word_AskUserQuestion prev s then Some 15 else None)"

text \<open>\<open>/AskUserQuestion/\<close>, \<open>/Use Task tool with subagent_type/\<close>, \<open>/Use Skill tool:/\<close>\<close>

definition contains :: "string \<Rightarrow> string \<Rightarrow> bool" where
  "contains p s = test (\<lambda>prev r. starts_with p r) s"

text \<open>
  \<open>/^([\t ]*)agent\s+([^\s]+)(.*)$/gim\<close> and the same with \<open>skill\<close>: at a line start, the
  indentation, the keyword in any case, white space (line terminators included), the name
  up to the next white space, and the rest up to the end of the line. The match gives the
  three groups.
\<close>

definition is_indent :: "char \<Rightarrow> bool" where
  "is_indent c \<longleftrightarrow> c = CHR 0x09 \<or> c = CHR 0x20"

definition re_invocation :: "string \<Rightarrow> char option \<Rightarrow> string \<Rightarrow> (nat \<times> string \<times> string \<times> string) option" where
  "re_invocation kw prev s =
     (if line_start prev \<and> starts_with_ci kw (dropWhile is_indent s)
      then case spaces1 (drop (length kw) (dropWhile is_indent s)) of
        None \<Rightarrow> None
      | Some q \<Rightarrow>
          if q = [] then None
          else let r = dropWhile (\<lambda>c. \<not> is_space c) q;
                   after = dropWhile (\<lambda>c. \<not> is_line_terminator c) r
               in Some (length s - length after,
                        takeWhile is_indent s,
                        takeWhile (\<lambda>c. \<not> is_space c) q,
                        takeWhile (\<lambda>c. \<not> is_line_terminator c) r)
      else None)"

text \<open>
  \<open>stripQuotes\<close>: \<open>s.replace(/^['"]+|['"]+$/g, "")\<close> removes the run of quotes at the start
  and the run of quotes at the end.
\<close>

definition is_quote :: "char \<Rightarrow> bool" where
  "is_quote c \<longleftrightarrow> c = CHR 0x27 \<or> c = CHR 0x22"

definition stripQuotes :: "string \<Rightarrow> string" where
  "stripQuotes s = rev (dropWhile is_quote (rev (dropWhile is_quote s)))"

text \<open>\<open>isLikelyDroidName\<close>: \<open>/^[a-z0-9_-]+$/\<close>\<close>

definition isLikelyDroidName :: "string \<Rightarrow> bool" where
  "isLikelyDroidName name \<longleftrightarrow> name \<noteq> [] \<and> list_all (\<lambda>c. c \<in> set (lower_letters @ digits @ ''_-'')) name"

datatype fileKind = Command | Droid | Skill | Generic

fun fileKind_string :: "fileKind \<Rightarrow> string" where
  "fileKind_string Command = ''command''"
| "fileKind_string Droid = ''droid''"
| "fileKind_string Skill = ''skill''"
| "fileKind_string Generic = ''generic''"

record NormalizeOptions =
  availableDroids :: "string list option"
  availableSkills :: "string list option"
  fileKind :: fileKind
  addHeaderNote :: "bool option"

record NormalizeResult =
  result_text :: string
  changed :: bool
  result_notes :: "string list"
  referencedDroids :: "string list"
  unresolvedDroids :: "string list"
  referencedSkills :: "string list"
  unresolvedSkills :: "string list"

definition headerNote :: "fileKind \<Rightarrow> string list \<Rightarrow> string" where
  "headerNote kind ns =
     ''<!-- Factory Import Normalizer ('' @ fileKind_string kind @ '')'' @
     (if ns \<noteq> [] then '': '' @ js_join ''; '' ns else []) @ '' -->'' @ [CHR 0x0A, CHR 0x0A]"

text \<open>\<open>alreadyHasHeaderNote\<close>: \<open>/^<!--\s*Factory Import Normalizer\b/m\<close>\<close>

definition re_header_note :: "char option \<Rightarrow> string \<Rightarrow> bool" where
  "re_header_note prev s \<longleftrightarrow>
     line_start prev \<and> starts_with ''<!--'' s \<and>
     starts_with ''Factory Import Normalizer'' (dropWhile is_space (drop 4 s)) \<and>
     \<not> word_after (drop 25 (dropWhile is_space (drop 4 s)))"

definition alreadyHasHeaderNote :: "string \<Rightarrow> bool" where
  "alreadyHasHeaderNote s = test re_header_note s"

text \<open>The name the two callbacks work with: \<open>stripQuotes(String(rawName).trim())\<close>.\<close>

definition invocation_name :: "string \<times> string \<times> string \<Rightarrow> string" where
  "invocation_name g = (case g of (indent, rawName, rest) \<Rightarrow> stripQuotes (trim rawName))"

definition has :: "string list option \<Rightarrow> string \<Rightarrow> bool" where
  "has available name = (case available of None \<Rightarrow> False | Some xs \<Rightarrow> name \<in> set xs)"

definition agent_replacement :: "string list option \<Rightarrow> string \<times> string \<times> string \<Rightarrow> string" where
  "agent_replacement available g =
     (case g of (indent, rawName, rest) \<Rightarrow>
        indent @ ''Use Task tool with subagent_type `'' @ invocation_name g @ ''`'' @
        (if has available (invocation_name g) then []
         else if isLikelyDroidName (invocation_name g) then '' (if available)''
         else '' (legacy name; may not exist)'') @ rest)"

definition skill_replacement :: "string list option \<Rightarrow> string \<times> string \<times> string \<Rightarrow> string" where
  "skill_replacement available g =
     (case g of (indent, rawName, rest) \<Rightarrow>
        indent @ ''Use Skill tool: `'' @ invocation_name g @ ''`'' @
        (if has available (invocation_name g) then [] else '' (if available)'') @ rest)"

definition remove_AskUserQuestion :: "string \<Rightarrow> string" where
  "remove_AskUserQuestion s =
     replace_all re_bare_AskUserQuestion ''ask the user''
       (replace_all re_quoted_AskUserQuestion ''ask the user''
         (replace_all (re_verb_AskUserQuestion ''invoke'') ''Ask the user''
           (replace_all (re_verb_AskUserQuestion ''use'') ''Ask the user'' s)))"

definition normalizeText :: "string \<Rightarrow> NormalizeOptions \<Rightarrow> NormalizeResult" where
  "normalizeText input options =
    (let original = input;
         asked = contains ''AskUserQuestion'' input;
         text1 = (if asked then remove_AskUserQuestion input else input);
         notes1 = (if asked then [''removed AskUserQuestion''] else []);
         agents = replace_scan (re_invocation ''agent'') 0 None text1;
         text2 = render (agent_replacement (availableDroids options)) agents;
         droids = map invocation_name (hits agents);
         skills = replace_scan (re_invocation ''skill'') 0 None text2;
         text3 = render (skill_replacement (availableSkills options)) skills;
         skillNames = map invocation_name (hits skills);
         notes2 = notes1 @
           (if text3 \<noteq> original \<and> contains ''Use Task tool with subagent_type'' text3
            then [''converted agent invocations''] else []) @
           (if text3 \<noteq> original \<and> contains ''Use Skill tool:'' text3
            then [''converted skill invocations''] else []);
         text4 = (if text3 \<noteq> original \<and> addHeaderNote options \<noteq> Some False \<and> \<not> alreadyHasHeaderNote text3
                  then headerNote (fileKind options) (uniq notes2) @ text3 else text3)
     in \<lparr>result_text = text4,
         changed = (text3 \<noteq> original),
         result_notes = uniq notes2,
         referencedDroids = uniq droids,
         unresolvedDroids = uniq (filter (\<lambda>n. \<not> has (availableDroids options) n) droids),
         referencedSkills = uniq skillNames,
         unresolvedSkills = uniq (filter (\<lambda>n. \<not> has (availableSkills options) n) skillNames)\<rparr>)"

section \<open>The command converter\<close>
















section \<open>Artifacts with and without the soft-unmapped token\<close>

text \<open>
  The declared capability-token list of an artifact: what the analyzers hand to
  \<open>analyzeTools\<close>, read from the given key of the parsed metadata.
\<close>

definition declared_tools :: "matter \<Rightarrow> string \<Rightarrow> string \<Rightarrow> string list" where
  "declared_tools matter content key =
     parseTools (get_prop (fst (parse_frontmatter matter content)) key)"

text \<open>
  To say what the token \<open>AskUserQuestion\<close> adds to a result, an artifact is compared with
  the same artifact whose token list (under the given key of the metadata) has lost every
  occurrence of the token; nothing else of the metadata or of the body changes.
\<close>


definition without_ask :: "string \<Rightarrow> frontmatter \<Rightarrow> frontmatter" where
  "without_ask key fm =
     AList.update key
       (JArr (map JStr (filter (\<lambda>t. t \<noteq> ''AskUserQuestion'') (parseTools (get_prop fm key))))) fm"

definition drop_ask :: "string \<Rightarrow> matter \<Rightarrow> matter" where
  "drop_ask key matter content =
     (case matter content of None \<Rightarrow> None | Some (fm, body) \<Rightarrow> Some (without_ask key fm, body))"

section \<open>Sample artifacts\<close>

text \<open>Collaborators and artifacts at which the theorems below are instantiated.\<close>

definition failing_fetch :: fetcher where
  "failing_fetch src t = Inl ''ENOENT: no such file or directory''"

definition sample_fetch :: fetcher where
  "sample_fetch src t = Inr ''---''"

definition no_matter :: matter where
  "no_matter content = None"

definition parsed_as :: "frontmatter \<Rightarrow> string \<Rightarrow> matter" where
  "parsed_as fm body content = Some (fm, body)"

definition sample_file :: DiscoveredFile where
  "sample_file = \<lparr>file_name = ''helper'', file_srcType = Local, file_src = ''agents/helper.md''\<rparr>"

text \<open>
  Scenario A of the specification: three tools, one of them the soft-unmapped token, and
  no description. The list stands under both keys, as an array and as a comma-separated
  string, so that the sample serves the three analyzers.
\<close>

definition scenario_A :: frontmatter where
  "scenario_A =
     [(''name'', JStr ''helper''),
      (''tools'', JArr [JStr ''Bash'', JStr ''WebFetch'', JStr ''AskUserQuestion'']),
      (''allowed-tools'', JStr ''Bash, WebFetch, AskUserQuestion'')]"


definition skill_without_main :: DiscoveredSkill where
  "skill_without_main =
     \<lparr>skill_name = ''pdf'', skill_srcType = Local, srcDir = ''skills/pdf'',
      files = [\<lparr>relativePath = ''README.md'', sf_src = ''skills/pdf/README.md'', sf_srcType = Local\<rparr>,
               \<lparr>relativePath = ''docs/SKILL.md'', sf_src = ''skills/pdf/docs/SKILL.md'', sf_srcType = Local\<rparr>]\<rparr>"

definition main_file :: SkillFile where
  "main_file = \<lparr>relativePath = ''Skill.MD'', sf_src = ''skills/pdf/Skill.MD'', sf_srcType = Local\<rparr>"

definition skill_with_main :: DiscoveredSkill where
  "skill_with_main =
     \<lparr>skill_name = ''pdf'', skill_srcType = Local, srcDir = ''skills/pdf'',
      files = [\<lparr>relativePath = ''README.md'', sf_src = ''skills/pdf/README.md'', sf_srcType = Local\<rparr>,
               main_file]\<rparr>"

definition sample_body :: string where
  "sample_body = ''You help the user.''"

definition header_options :: NormalizeOptions where
  "header_options =
     \<lparr>availableDroids = None, availableSkills = None, fileKind = Generic, addHeaderNote = Some True\<rparr>"




section \<open>Properties of the tool resolver\<close>

lemma ask_facts:
  "''AskUserQuestion'' \<notin> set FACTORY_TOOLS"
  "MCP_TOOL_PATTERN ''AskUserQuestion'' = None"
  "\<not> BASH_RESTRICTION_PATTERN ''AskUserQuestion''"
  "TOOL_MAPPING ''AskUserQuestion'' = Own_null"
  by (simp_all add: FACTORY_TOOLS_def MCP_TOOL_PATTERN_def BASH_RESTRICTION_PATTERN_def
      TOOL_MAPPING_def TOOL_MAPPING_own_def)

lemma analyze_tool_ask:
  "analyze_tool a ''AskUserQuestion'' =
     a\<lparr>t_unmapped := t_unmapped a @ [''AskUserQuestion''],
       t_warnings := t_warnings a @ [ask_warning],
       t_suggestions := t_suggestions a @ [ask_suggestion]\<rparr>"
  by (simp add: analyze_tool_def ask_facts)

lemma step_warnings:
  "t_warnings (analyze_tool a tool) =
     t_warnings a @ (if tool = ''AskUserQuestion'' then [ask_warning] else [])"
  by (cases "tool = ''AskUserQuestion''")
     (simp_all add: analyze_tool_ask, simp add: analyze_tool_def split: option.splits lookup.splits)

lemma step_suggestions:
  "t_suggestions (analyze_tool a tool) =
     t_suggestions a @ (if tool = ''AskUserQuestion'' then [ask_suggestion] else [])"
  by (cases "tool = ''AskUserQuestion''")
     (simp_all add: analyze_tool_ask, simp add: analyze_tool_def split: option.splits lookup.splits)

lemma step_unmapped:
  "t_unmapped (analyze_tool a tool) = t_unmapped a @ t_unmapped (analyze_tool empty_tool_analysis tool)"
  by (simp add: analyze_tool_def empty_tool_analysis_def split: option.splits lookup.splits)

lemma step_issues:
  "t_issues (analyze_tool a tool) = t_issues a @ t_issues (analyze_tool empty_tool_analysis tool)"
  by (simp add: analyze_tool_def empty_tool_analysis_def split: option.splits lookup.splits)

lemma step_mapped:
  "t_mapped (analyze_tool a tool) = t_mapped a @ t_mapped (analyze_tool empty_tool_analysis tool)"
  by (simp add: analyze_tool_def empty_tool_analysis_def split: option.splits lookup.splits)

lemma step_requiredMcps:
  "t_requiredMcps (analyze_tool a tool) =
     fold set_insert (t_requiredMcps (analyze_tool empty_tool_analysis tool)) (t_requiredMcps a)"
  by (simp add: analyze_tool_def empty_tool_analysis_def set_insert_def split: option.splits lookup.splits)


lemma fold_warnings:
  "t_warnings (foldl analyze_tool a tools) =
     t_warnings a @ replicate (count_list tools ''AskUserQuestion'') ask_warning"
proof (induction tools arbitrary: a)
  case Nil
  show ?case by simp
next
  case (Cons t ts)
  show ?case by (simp add: Cons.IH step_warnings replicate_app_Cons_same)
qed

lemma fold_suggestions:
  "t_suggestions (foldl analyze_tool a tools) =
     t_suggestions a @ replicate (count_list tools ''AskUserQuestion'') ask_suggestion"
proof (induction tools arbitrary: a)
  case Nil
  show ?case by simp
next
  case (Cons t ts)
  show ?case by (simp add: Cons.IH step_suggestions replicate_app_Cons_same)
qed

lemma fold_unmapped:
  "t_unmapped (foldl analyze_tool a tools) =
     t_unmapped a @ concat (map (\<lambda>t. t_unmapped (analyze_tool empty_tool_analysis t)) tools)"
proof (induction tools arbitrary: a)
  case Nil
  show ?case by simp
next
  case (Cons t ts)
  show ?case using step_unmapped [of a t] by (simp add: Cons.IH)
qed

lemma fold_issues:
  "t_issues (foldl analyze_tool a tools) =
     t_issues a @ concat (map (\<lambda>t. t_issues (analyze_tool empty_tool_analysis t)) tools)"
proof (induction tools arbitrary: a)
  case Nil
  show ?case by simp
next
  case (Cons t ts)
  show ?case using step_issues [of a t] by (simp add: Cons.IH)
qed

lemma fold_mapped:
  "t_mapped (foldl analyze_tool a tools) =
     t_mapped a @ concat (map (\<lambda>t. t_mapped (analyze_tool empty_tool_analysis t)) tools)"
proof (induction tools arbitrary: a)
  case Nil
  show ?case by simp
next
  case (Cons t ts)
  show ?case using step_mapped [of a t] by (simp add: Cons.IH)
qed

lemma fold_requiredMcps:
  "t_requiredMcps (foldl analyze_tool a tools) =
     fold set_insert (concat (map (\<lambda>t. t_requiredMcps (analyze_tool empty_tool_analysis t)) tools))
       (t_requiredMcps a)"
proof (induction tools arbitrary: a)
  case Nil
  show ?case by simp
next
  case (Cons t ts)
  show ?case using step_requiredMcps [of a t] by (simp add: Cons.IH)
qed

lemma set_fold_set_insert: "set (fold set_insert xs acc) = set xs \<union> set acc"
  by (induction xs arbitrary: acc) (auto simp: set_insert_def)

lemma distinct_fold_set_insert: "distinct acc \<Longrightarrow> distinct (fold set_insert xs acc)"
  by (induction xs arbitrary: acc) (auto simp: set_insert_def)




lemma analyzeTools_warnings:
  "t_warnings (analyzeTools tools) =
     replicate (count_list tools ''AskUserQuestion'') ask_warning @
     (if t_requiredMcps (analyzeTools tools) \<noteq> [] then [mcp_warning (t_requiredMcps (analyzeTools tools))]
      else [])"
  by (simp add: analyzeTools_def Let_def fold_warnings empty_tool_analysis_def)

lemma analyzeTools_suggestions:
  "t_suggestions (analyzeTools tools) = replicate (count_list tools ''AskUserQuestion'') ask_suggestion"
  by (simp add: analyzeTools_def Let_def fold_suggestions empty_tool_analysis_def)

lemma score_le_95: "warns \<noteq> [] \<Longrightarrow> calculate_score iss warns \<le> 95"
  by (cases warns) (simp_all add: calculate_score_def)



lemma agent_score:
  "fetchContent (file_src item) (file_srcType item) = Inr content \<Longrightarrow>
   score (analyzeAgent fetchContent matter item) =
     calculate_score (issues (analyzeAgent fetchContent matter item))
       (warnings (analyzeAgent fetchContent matter item))"
  by (simp add: analyzeAgent_def Let_def split: prod.splits)

lemma command_score:
  "fetchContent (file_src item) (file_srcType item) = Inr content \<Longrightarrow>
   score (analyzeCommand fetchContent matter item) =
     calculate_score (issues (analyzeCommand fetchContent matter item))
       (warnings (analyzeCommand fetchContent matter item))"
  by (simp add: analyzeCommand_def Let_def split: prod.splits)

lemma skill_score:
  "find is_main_file (files skill) = Some skillFile \<Longrightarrow>
   fetchContent (sf_src skillFile) (sf_srcType skillFile) = Inr content \<Longrightarrow>
   score (analyzeSkill fetchContent matter skill) =
     calculate_score (issues (analyzeSkill fetchContent matter skill))
       (warnings (analyzeSkill fetchContent matter skill))"
  by (simp add: analyzeSkill_def Let_def split: prod.splits)



lemma analyzeTools_Nil: "analyzeTools [] = empty_tool_analysis"
  by (simp add: analyzeTools_def empty_tool_analysis_def uniq_def)





lemma concat_map_filter_neutral:
  "f a = [] \<Longrightarrow> concat (map f (filter (\<lambda>t. t \<noteq> a) xs)) = concat (map f xs)"
  by (induction xs) auto

lemma step_ask:
  "t_mapped (analyze_tool empty_tool_analysis ''AskUserQuestion'') = []"
  "t_issues (analyze_tool empty_tool_analysis ''AskUserQuestion'') = []"
  "t_requiredMcps (analyze_tool empty_tool_analysis ''AskUserQuestion'') = []"
  "t_unmapped (analyze_tool empty_tool_analysis ''AskUserQuestion'') = [''AskUserQuestion'']"
  by (simp_all add: analyze_tool_ask empty_tool_analysis_def)

lemma step_unmapped_cases:
  "t_unmapped (analyze_tool empty_tool_analysis t) = [] \<or>
   t_unmapped (analyze_tool empty_tool_analysis t) = [t]"
  by (simp add: analyze_tool_def empty_tool_analysis_def split: option.splits lookup.splits)

lemma filter_unmapped:
  "filter (\<lambda>t. t \<noteq> ''AskUserQuestion'')
     (concat (map (\<lambda>t. t_unmapped (analyze_tool empty_tool_analysis t)) tools)) =
   concat (map (\<lambda>t. t_unmapped (analyze_tool empty_tool_analysis t))
     (filter (\<lambda>t. t \<noteq> ''AskUserQuestion'') tools))"
proof (induction tools)
  case Nil
  show ?case by simp
next
  case (Cons t ts)
  show ?case
    using step_unmapped_cases [of t] Cons.IH by (auto simp: step_ask)
qed

lemma count_filtered: "count_list (filter (\<lambda>t. t \<noteq> a) xs) a = 0"
  by (induction xs) auto

lemma empty_fields:
  "t_mapped empty_tool_analysis = []" "t_unmapped empty_tool_analysis = []"
  "t_requiredMcps empty_tool_analysis = []" "t_issues empty_tool_analysis = []"
  "t_warnings empty_tool_analysis = []" "t_suggestions empty_tool_analysis = []"
  by (simp_all add: empty_tool_analysis_def)

lemma without_ask_tools:
  "t_mapped (analyzeTools (filter (\<lambda>t. t \<noteq> ''AskUserQuestion'') tools)) = t_mapped (analyzeTools tools)"
  "t_requiredMcps (analyzeTools (filter (\<lambda>t. t \<noteq> ''AskUserQuestion'') tools)) = t_requiredMcps (analyzeTools tools)"
  "t_issues (analyzeTools (filter (\<lambda>t. t \<noteq> ''AskUserQuestion'') tools)) = t_issues (analyzeTools tools)"
  "t_unmapped (analyzeTools (filter (\<lambda>t. t \<noteq> ''AskUserQuestion'') tools)) =
     filter (\<lambda>t. t \<noteq> ''AskUserQuestion'') (t_unmapped (analyzeTools tools))"
  by (simp_all add: analyzeTools_def Let_def fold_mapped fold_requiredMcps fold_issues fold_unmapped
      concat_map_filter_neutral step_ask filter_unmapped empty_fields)

lemma without_ask_warnings:
  "length (t_warnings (analyzeTools tools)) =
     length (t_warnings (analyzeTools (filter (\<lambda>t. t \<noteq> ''AskUserQuestion'') tools))) +
     count_list tools ''AskUserQuestion''"
  using analyzeTools_warnings [of tools]
    analyzeTools_warnings [of "filter (\<lambda>t. t \<noteq> ''AskUserQuestion'') tools"]
  by (simp add: without_ask_tools count_filtered)

lemma without_ask_suggestions:
  "length (t_suggestions (analyzeTools tools)) =
     length (t_suggestions (analyzeTools (filter (\<lambda>t. t \<noteq> ''AskUserQuestion'') tools))) +
     count_list tools ''AskUserQuestion''"
  by (simp add: analyzeTools_suggestions count_filtered)

lemma ask_is_unmapped:
  "''AskUserQuestion'' \<in> set tools \<Longrightarrow> ''AskUserQuestion'' \<in> set (t_unmapped (analyzeTools tools))"
  by (auto simp: analyzeTools_def Let_def fold_unmapped step_ask intro!: bexI [of _ "''AskUserQuestion''"])

lemma parseTools_strings: "parseTools (JArr (map JStr xs)) = xs"
  by (simp add: parseTools_def comp_def)

lemma get_prop_without_ask:
  "get_prop (without_ask key fm) k =
     (if k = key
      then JArr (map JStr (filter (\<lambda>t. t \<noteq> ''AskUserQuestion'') (parseTools (get_prop fm key))))
      else get_prop fm k)"
  by (simp add: get_prop_def without_ask_def update_conv')

lemma parse_drop_ask:
  "matter content = Some (fm, body) \<Longrightarrow>
   parse_frontmatter (drop_ask key matter) content = (without_ask key fm, body, [])"
  by (simp add: parse_frontmatter_def drop_ask_def)

lemma parse_Some:
  "matter content = Some (fm, body) \<Longrightarrow> parse_frontmatter matter content = (fm, body, [])"
  by (simp add: parse_frontmatter_def)

lemma parse_None_tools:
  "matter content = None \<Longrightarrow> parseTools (get_prop (fst (parse_frontmatter matter content)) key) = []"
  by (simp add: parse_frontmatter_def get_prop_def parseTools_def)


lemma agent_with_without:
  assumes f: "fetchContent (file_src item) (file_srcType item) = Inr content"
    and ask: "''AskUserQuestion'' \<in> set (parseTools (get_prop (fst (parse_frontmatter matter content)) ''tools''))"
    and only: "filter (\<lambda>t. t \<noteq> ''AskUserQuestion'')
        (t_unmapped (analyzeTools (parseTools (get_prop (fst (parse_frontmatter matter content)) ''tools'')))) = []"
  shows "compatible (analyzeAgent fetchContent matter item) \<and>
    issues (analyzeAgent fetchContent matter item) =
      issues (analyzeAgent fetchContent (drop_ask ''tools'' matter) item) \<and>
    length (warnings (analyzeAgent fetchContent matter item)) =
      length (warnings (analyzeAgent fetchContent (drop_ask ''tools'' matter) item)) +
      count_list (parseTools (get_prop (fst (parse_frontmatter matter content)) ''tools'')) ''AskUserQuestion'' \<and>
    length (suggestions (analyzeAgent fetchContent matter item)) =
      length (suggestions (analyzeAgent fetchContent (drop_ask ''tools'' matter) item)) +
      count_list (parseTools (get_prop (fst (parse_frontmatter matter content)) ''tools'')) ''AskUserQuestion'' + 1"
proof -
  obtain fm body where m: "matter content = Some (fm, body)"
    using ask parse_None_tools [of matter content "''tools''"] by (cases "matter content") auto
  define tools where "tools = parseTools (get_prop fm ''tools'')"
  have p: "parse_frontmatter matter content = (fm, body, [])"
    using m by (rule parse_Some)
  have p': "parse_frontmatter (drop_ask ''tools'' matter) content = (without_ask ''tools'' fm, body, [])"
    using m by (rule parse_drop_ask)
  have ask': "''AskUserQuestion'' \<in> set tools" and only': "filter (\<lambda>t. t \<noteq> ''AskUserQuestion'') (t_unmapped (analyzeTools tools)) = []"
    using ask only by (simp_all add: p tools_def)
  have u: "t_unmapped (analyzeTools tools) \<noteq> []"
    using ask_is_unmapped [OF ask'] by auto
  have u': "t_unmapped (analyzeTools (filter (\<lambda>t. t \<noteq> ''AskUserQuestion'') tools)) = []"
    using only' by (simp add: without_ask_tools)
  show ?thesis
    using u u' only' without_ask_warnings [of tools] without_ask_suggestions [of tools]
    by (simp add: analyzeAgent_def f p p' Let_def get_prop_without_ask parseTools_strings
        without_ask_tools(1,2,3) tools_def [symmetric])
qed

lemma command_with_without:
  assumes f: "fetchContent (file_src item) (file_srcType item) = Inr content"
    and ask: "''AskUserQuestion'' \<in> set (parseTools (get_prop (fst (parse_frontmatter matter content)) ''allowed-tools''))"
    and only: "filter (\<lambda>t. t \<noteq> ''AskUserQuestion'')
        (t_unmapped (analyzeTools (parseTools (get_prop (fst (parse_frontmatter matter content)) ''allowed-tools'')))) = []"
  shows "compatible (analyzeCommand fetchContent matter item) \<and>
    issues (analyzeCommand fetchContent matter item) =
      issues (analyzeCommand fetchContent (drop_ask ''allowed-tools'' matter) item) \<and>
    length (warnings (analyzeCommand fetchContent matter item)) =
      length (warnings (analyzeCommand fetchContent (drop_ask ''allowed-tools'' matter) item)) +
      count_list (parseTools (get_prop (fst (parse_frontmatter matter content)) ''allowed-tools'')) ''AskUserQuestion'' \<and>
    length (suggestions (analyzeCommand fetchContent matter item)) =
      length (suggestions (analyzeCommand fetchContent (drop_ask ''allowed-tools'' matter) item)) +
      count_list (parseTools (get_prop (fst (parse_frontmatter matter content)) ''allowed-tools'')) ''AskUserQuestion''"
proof -
  obtain fm body where m: "matter content = Some (fm, body)"
    using ask parse_None_tools [of matter content "''allowed-tools''"] by (cases "matter content") auto
  define tools where "tools = parseTools (get_prop fm ''allowed-tools'')"
  have p: "parse_frontmatter matter content = (fm, body, [])"
    using m by (rule parse_Some)
  have p': "parse_frontmatter (drop_ask ''allowed-tools'' matter) content = (without_ask ''allowed-tools'' fm, body, [])"
    using m by (rule parse_drop_ask)
  have ask': "''AskUserQuestion'' \<in> set tools" and only': "filter (\<lambda>t. t \<noteq> ''AskUserQuestion'') (t_unmapped (analyzeTools tools)) = []"
    using ask only by (simp_all add: p tools_def)
  have u: "t_unmapped (analyzeTools tools) \<noteq> []"
    using ask_is_unmapped [OF ask'] by auto
  have u': "t_unmapped (analyzeTools (filter (\<lambda>t. t \<noteq> ''AskUserQuestion'') tools)) = []"
    using only' by (simp add: without_ask_tools)
  show ?thesis
    using u u' only' without_ask_warnings [of tools] without_ask_suggestions [of tools]
    by (simp add: analyzeCommand_def f p p' Let_def get_prop_without_ask parseTools_strings
        without_ask_tools(1,2,3) tools_def [symmetric])
qed


lemma skill_tool_analysis:
  "(if tools \<noteq> [] then analyzeTools tools else empty_tool_analysis) = analyzeTools tools"
  by (simp add: analyzeTools_Nil)

lemma skill_with_without:
  assumes mf: "find is_main_file (files skill) = Some skillFile"
    and f: "fetchContent (sf_src skillFile) (sf_srcType skillFile) = Inr content"
    and ask: "''AskUserQuestion'' \<in> set (parseTools (get_prop (fst (parse_frontmatter matter content)) ''allowed-tools''))"
    and only: "filter (\<lambda>t. t \<noteq> ''AskUserQuestion'')
        (t_unmapped (analyzeTools (parseTools (get_prop (fst (parse_frontmatter matter content)) ''allowed-tools'')))) = []"
  shows "compatible (analyzeSkill fetchContent matter skill) \<and>
    issues (analyzeSkill fetchContent matter skill) =
      issues (analyzeSkill fetchContent (drop_ask ''allowed-tools'' matter) skill) \<and>
    length (warnings (analyzeSkill fetchContent matter skill)) =
      length (warnings (analyzeSkill fetchContent (drop_ask ''allowed-tools'' matter) skill)) +
      count_list (parseTools (get_prop (fst (parse_frontmatter matter content)) ''allowed-tools'')) ''AskUserQuestion'' \<and>
    length (suggestions (analyzeSkill fetchContent matter skill)) =
      length (suggestions (analyzeSkill fetchContent (drop_ask ''allowed-tools'' matter) skill)) +
      count_list (parseTools (get_prop (fst (parse_frontmatter matter content)) ''allowed-tools'')) ''AskUserQuestion''"
proof -
  obtain fm body where m: "matter content = Some (fm, body)"
    using ask parse_None_tools [of matter content "''allowed-tools''"] by (cases "matter content") auto
  define tools where "tools = parseTools (get_prop fm ''allowed-tools'')"
  have p: "parse_frontmatter matter content = (fm, body, [])"
    using m by (rule parse_Some)
  have p': "parse_frontmatter (drop_ask ''allowed-tools'' matter) content = (without_ask ''allowed-tools'' fm, body, [])"
    using m by (rule parse_drop_ask)
  have ask': "''AskUserQuestion'' \<in> set tools" and only': "filter (\<lambda>t. t \<noteq> ''AskUserQuestion'') (t_unmapped (analyzeTools tools)) = []"
    using ask only by (simp_all add: p tools_def)
  have u: "t_unmapped (analyzeTools tools) \<noteq> []"
    using ask_is_unmapped [OF ask'] by auto
  have u': "t_unmapped (analyzeTools (filter (\<lambda>t. t \<noteq> ''AskUserQuestion'') tools)) = []"
    using only' by (simp add: without_ask_tools)
  show ?thesis
    using u u' only' without_ask_warnings [of tools] without_ask_suggestions [of tools]
    by (simp add: analyzeSkill_def mf f p p' skill_tool_analysis Let_def get_prop_without_ask parseTools_strings
        without_ask_tools(1,2,3) tools_def [symmetric])
qed

lemma sample_facts:
  "sample_fetch (file_src sample_file) (file_srcType sample_file) = Inr ''---''"
  "failing_fetch (file_src sample_file) (file_srcType sample_file) = Inl ''ENOENT: no such file or directory''"
  "sample_fetch (sf_src main_file) (sf_srcType main_file) = Inr ''---''"
  "failing_fetch (sf_src main_file) (sf_srcType main_file) = Inl ''ENOENT: no such file or directory''"
  by (simp_all add: sample_fetch_def failing_fetch_def)

lemma sample_main_file: "find is_main_file (files skill_with_main) = Some main_file"
  by code_simp

lemma sample_body_checks:
  "checkLegacyRuntimeContent sample_body = ([], [])"
  "checkClaudeSpecificContent sample_body = []"
  by code_simp+

lemma scenario_A_analysis:
  "analyzeTools [''Bash'', ''WebFetch'', ''AskUserQuestion''] =
     \<lparr>t_mapped = [Tok ''Execute'', Tok ''FetchUrl''], t_unmapped = [''AskUserQuestion''],
      t_requiredMcps = [], t_issues = [], t_warnings = [ask_warning], t_suggestions = [ask_suggestion]\<rparr>"
  by code_simp

lemma scenario_A_rest:
  "analyzeTools [''Bash'', ''WebFetch''] =
     \<lparr>t_mapped = [Tok ''Execute'', Tok ''FetchUrl''], t_unmapped = [],
      t_requiredMcps = [], t_issues = [], t_warnings = [], t_suggestions = []\<rparr>"
  by code_simp

lemma scenario_A_props:
  "parseTools (get_prop scenario_A ''tools'') = [''Bash'', ''WebFetch'', ''AskUserQuestion'']"
  "parseTools (get_prop scenario_A ''allowed-tools'') = [''Bash'', ''WebFetch'', ''AskUserQuestion'']"
  "truthy (get_prop scenario_A ''name'')"
  "name_pattern (js_String (get_prop scenario_A ''name''))"
  "\<not> truthy (get_prop scenario_A ''description'')"
  by code_simp+

lemma parseTools_array: "parseTools (JArr xs) = map js_String xs"
  by (simp add: parseTools_def)

lemma scenario_A_parsed:
  "parse_frontmatter (parsed_as scenario_A sample_body) c = (scenario_A, sample_body, [])"
  "parse_frontmatter (drop_ask key (parsed_as scenario_A sample_body)) c =
     (without_ask key scenario_A, sample_body, [])"
  by (simp_all add: parse_frontmatter_def parsed_as_def drop_ask_def)

lemma scenario_A_agent:
  "analyzeAgent sample_fetch (parsed_as scenario_A sample_body) sample_file =
    \<lparr>compatible = True, score = 90, issues = [], warnings = [ask_warning, missing_description],
     mappedTools = [Tok ''Execute'', Tok ''FetchUrl''], unmappedTools = [''AskUserQuestion''],
     requiredMcps = [],
     suggestions = [ask_suggestion, ''Consider removing or replacing: AskUserQuestion'']\<rparr>"
  by (simp add: analyzeAgent_def sample_facts scenario_A_parsed Let_def
      scenario_A_props scenario_A_analysis sample_body_checks calculate_score_def)

lemma scenario_A_agent_without:
  "analyzeAgent sample_fetch (drop_ask ''tools'' (parsed_as scenario_A sample_body)) sample_file =
    \<lparr>compatible = True, score = 95, issues = [], warnings = [missing_description],
     mappedTools = [Tok ''Execute'', Tok ''FetchUrl''], unmappedTools = [],
     requiredMcps = [], suggestions = []\<rparr>"
  by (simp add: analyzeAgent_def sample_facts scenario_A_parsed Let_def get_prop_without_ask
      parseTools_array scenario_A_props scenario_A_rest sample_body_checks calculate_score_def)

lemma scenario_A_command:
  "analyzeCommand sample_fetch (parsed_as scenario_A sample_body) sample_file =
    \<lparr>compatible = True, score = 95, issues = [], warnings = [ask_warning],
     mappedTools = [Tok ''Execute'', Tok ''FetchUrl''], unmappedTools = [''AskUserQuestion''],
     requiredMcps = [], suggestions = [ask_suggestion]\<rparr>"
  by (simp add: analyzeCommand_def sample_facts scenario_A_parsed Let_def
      scenario_A_props scenario_A_analysis sample_body_checks calculate_score_def)

lemma scenario_A_command_without:
  "analyzeCommand sample_fetch (drop_ask ''allowed-tools'' (parsed_as scenario_A sample_body)) sample_file =
    \<lparr>compatible = True, score = 100, issues = [], warnings = [],
     mappedTools = [Tok ''Execute'', Tok ''FetchUrl''], unmappedTools = [],
     requiredMcps = [], suggestions = []\<rparr>"
  by (simp add: analyzeCommand_def sample_facts scenario_A_parsed Let_def get_prop_without_ask
      parseTools_array scenario_A_props scenario_A_rest sample_body_checks calculate_score_def)

lemma scenario_A_skill:
  "analyzeSkill sample_fetch (parsed_as scenario_A sample_body) skill_with_main =
    \<lparr>compatible = True, score = 90, issues = [], warnings = [missing_description, ask_warning],
     mappedTools = [Tok ''Execute'', Tok ''FetchUrl''], unmappedTools = [''AskUserQuestion''],
     requiredMcps = [], suggestions = [ask_suggestion]\<rparr>"
  by (simp add: analyzeSkill_def sample_main_file sample_facts scenario_A_parsed Let_def
      scenario_A_props scenario_A_analysis sample_body_checks calculate_score_def)

lemma scenario_A_skill_without:
  "analyzeSkill sample_fetch (drop_ask ''allowed-tools'' (parsed_as scenario_A sample_body)) skill_with_main =
    \<lparr>compatible = True, score = 95, issues = [], warnings = [missing_description],
     mappedTools = [Tok ''Execute'', Tok ''FetchUrl''], unmappedTools = [],
     requiredMcps = [], suggestions = []\<rparr>"
  by (simp add: analyzeSkill_def sample_main_file sample_facts scenario_A_parsed Let_def get_prop_without_ask
      parseTools_array scenario_A_props scenario_A_rest sample_body_checks calculate_score_def)

lemma scenario_A_declared:
  "declared_tools (parsed_as scenario_A sample_body) c ''tools'' = [''Bash'', ''WebFetch'', ''AskUserQuestion'']"
  "declared_tools (parsed_as scenario_A sample_body) c ''allowed-tools'' = [''Bash'', ''WebFetch'', ''AskUserQuestion'']"
  by (simp_all add: declared_tools_def scenario_A_parsed scenario_A_props)




section \<open>Claims about the analyzers\<close>

text \<open>
  Claim C1, as amended. For an artifact whose declared token list contains
  \<open>AskUserQuestion\<close> and no other unmapped token, analysis reports \<open>compatible = true\<close>.
  Compared with the same artifact without the token, the issues are the same, and every
  occurrence of the token adds exactly one warning and exactly one suggestion. Agent
  analysis adds one suggestion more (\<open>Consider removing or replacing: ...\<close>), because the
  list of unmapped tools is not empty; command and skill analysis do not.
\<close>

theorem soft_unmapped_token_effect:
  "(fetchContent (file_src item) (file_srcType item) = Inr content \<and>
    ''AskUserQuestion'' \<in> set (declared_tools matter content ''tools'') \<and>
    filter (\<lambda>t. t \<noteq> ''AskUserQuestion'')
      (t_unmapped (analyzeTools (declared_tools matter content ''tools''))) = [] \<longrightarrow>
      compatible (analyzeAgent fetchContent matter item) \<and>
      issues (analyzeAgent fetchContent matter item) =
        issues (analyzeAgent fetchContent (drop_ask ''tools'' matter) item) \<and>
      length (warnings (analyzeAgent fetchContent matter item)) =
        length (warnings (analyzeAgent fetchContent (drop_ask ''tools'' matter) item)) +
        count_list (declared_tools matter content ''tools'') ''AskUserQuestion'' \<and>
      length (suggestions (analyzeAgent fetchContent matter item)) =
        length (suggestions (analyzeAgent fetchContent (drop_ask ''tools'' matter) item)) +
        count_list (declared_tools matter content ''tools'') ''AskUserQuestion'' + 1) \<and>
   (fetchContent (file_src item) (file_srcType item) = Inr content \<and>
    ''AskUserQuestion'' \<in> set (declared_tools matter content ''allowed-tools'') \<and>
    filter (\<lambda>t. t \<noteq> ''AskUserQuestion'')
      (t_unmapped (analyzeTools (declared_tools matter content ''allowed-tools''))) = [] \<longrightarrow>
      compatible (analyzeCommand fetchContent matter item) \<and>
      issues (analyzeCommand fetchContent matter item) =
        issues (analyzeCommand fetchContent (drop_ask ''allowed-tools'' matter) item) \<and>
      length (warnings (analyzeCommand fetchContent matter item)) =
        length (warnings (analyzeCommand fetchContent (drop_ask ''allowed-tools'' matter) item)) +
        count_list (declared_tools matter content ''allowed-tools'') ''AskUserQuestion'' \<and>
      length (suggestions (analyzeCommand fetchContent matter item)) =
        length (suggestions (analyzeCommand fetchContent (drop_ask ''allowed-tools'' matter) item)) +
        count_list (declared_tools matter content ''allowed-tools'') ''AskUserQuestion'') \<and>
   (find is_main_file (files skill) = Some skillFile \<and>
    fetchContent (sf_src skillFile) (sf_srcType skillFile) = Inr content \<and>
    ''AskUserQuestion'' \<in> set (declared_tools matter content ''allowed-tools'') \<and>
    filter (\<lambda>t. t \<noteq> ''AskUserQuestion'')
      (t_unmapped (analyzeTools (declared_tools matter content ''allowed-tools''))) = [] \<longrightarrow>
      compatible (analyzeSkill fetchContent matter skill) \<and>
      issues (analyzeSkill fetchContent matter skill) =
        issues (analyzeSkill fetchContent (drop_ask ''allowed-tools'' matter) skill) \<and>
      length (warnings (analyzeSkill fetchContent matter skill)) =
        length (warnings (analyzeSkill fetchContent (drop_ask ''allowed-tools'' matter) skill)) +
        count_list (declared_tools matter content ''allowed-tools'') ''AskUserQuestion'' \<and>
      length (suggestions (analyzeSkill fetchContent matter skill)) =
        length (suggestions (analyzeSkill fetchContent (drop_ask ''allowed-tools'' matter) skill)) +
        count_list (declared_tools matter content ''allowed-tools'') ''AskUserQuestion'')"
  unfolding declared_tools_def
  using agent_with_without [of fetchContent item content matter]
    command_with_without [of fetchContent item content matter]
    skill_with_without [of skill skillFile fetchContent content matter]
  by blast


theorem soft_unmapped_token_effect_witness:
  "compatible (analyzeAgent sample_fetch (parsed_as scenario_A sample_body) sample_file) \<and>
   issues (analyzeAgent sample_fetch (parsed_as scenario_A sample_body) sample_file) =
     issues (analyzeAgent sample_fetch (drop_ask ''tools'' (parsed_as scenario_A sample_body)) sample_file) \<and>
   length (warnings (analyzeAgent sample_fetch (parsed_as scenario_A sample_body) sample_file)) =
     length (warnings (analyzeAgent sample_fetch (drop_ask ''tools'' (parsed_as scenario_A sample_body)) sample_file)) + 1 \<and>
   length (suggestions (analyzeAgent sample_fetch (parsed_as scenario_A sample_body) sample_file)) =
     length (suggestions (analyzeAgent sample_fetch (drop_ask ''tools'' (parsed_as scenario_A sample_body)) sample_file)) + 2 \<and>
   compatible (analyzeCommand sample_fetch (parsed_as scenario_A sample_body) sample_file) \<and>
   length (suggestions (analyzeCommand sample_fetch (parsed_as scenario_A sample_body) sample_file)) =
     length (suggestions (analyzeCommand sample_fetch (drop_ask ''allowed-tools'' (parsed_as scenario_A sample_body)) sample_file)) + 1 \<and>
   compatible (analyzeSkill sample_fetch (parsed_as scenario_A sample_body) skill_with_main) \<and>
   length (suggestions (analyzeSkill sample_fetch (parsed_as scenario_A sample_body) skill_with_main)) =
     length (suggestions (analyzeSkill sample_fetch (drop_ask ''allowed-tools'' (parsed_as scenario_A sample_body)) skill_with_main)) + 1"
  using soft_unmapped_token_effect [of sample_fetch sample_file "''---''" "parsed_as scenario_A sample_body" skill_with_main main_file]
  by (simp add: sample_facts sample_main_file scenario_A_declared scenario_A_analysis)


text \<open>
  Claim C1 as stated fails for agents: in scenario A the token adds two suggestions to the
  result of \<open>analyzeAgent\<close>, not one.
\<close>

theorem soft_unmapped_token_agent_counterexample:
  "length (suggestions (analyzeAgent sample_fetch (parsed_as scenario_A sample_body) sample_file)) \<noteq>
   length (suggestions (analyzeAgent sample_fetch (drop_ask ''tools'' (parsed_as scenario_A sample_body)) sample_file)) + 1"
  by (simp add: scenario_A_agent scenario_A_agent_without)


text \<open>
  Claim C2, as amended. Whenever the content is fetched (and, for a skill, the main file
  is found), the score is \<open>max(0, min(100, 100 - 20 i - 5 w))\<close> for the \<open>i\<close> issues and \<open>w\<close>
  warnings of the result. The rule is non-increasing in both counts, stays in \<open>[0, 100]\<close>
  and gives 100 for no issue and no warning.
\<close>

theorem score_rule:
  "(fetchContent (file_src item) (file_srcType item) = Inr content \<longrightarrow>
      score (analyzeAgent fetchContent matter item) =
        max 0 (min 100 (100 - 20 * int (length (issues (analyzeAgent fetchContent matter item)))
                            - 5 * int (length (warnings (analyzeAgent fetchContent matter item))))) \<and>
      score (analyzeCommand fetchContent matter item) =
        max 0 (min 100 (100 - 20 * int (length (issues (analyzeCommand fetchContent matter item)))
                            - 5 * int (length (warnings (analyzeCommand fetchContent matter item)))))) \<and>
   (find is_main_file (files skill) = Some skillFile \<and>
    fetchContent (sf_src skillFile) (sf_srcType skillFile) = Inr content \<longrightarrow>
      score (analyzeSkill fetchContent matter skill) =
        max 0 (min 100 (100 - 20 * int (length (issues (analyzeSkill fetchContent matter skill)))
                            - 5 * int (length (warnings (analyzeSkill fetchContent matter skill)))))) \<and>
   calculate_score iss warns = max 0 (min 100 (100 - 20 * int (length iss) - 5 * int (length warns))) \<and>
   (length iss \<le> length iss' \<and> length warns \<le> length warns' \<longrightarrow>
      calculate_score iss' warns' \<le> calculate_score iss warns) \<and>
   0 \<le> calculate_score iss warns \<and> calculate_score iss warns \<le> 100 \<and>
   calculate_score [] [] = 100"
proof -
  have formula: "calculate_score i w = max 0 (min 100 (100 - 20 * int (length i) - 5 * int (length w)))"
    for i w
    by (simp add: calculate_score_def)
  have mono: "calculate_score iss' warns' \<le> calculate_score iss warns"
    if "length iss \<le> length iss' \<and> length warns \<le> length warns'"
    using that unfolding calculate_score_def by (auto simp: max_def min_def)
  show ?thesis
    using agent_score [of fetchContent item content matter]
      command_score [of fetchContent item content matter]
      skill_score [of skill skillFile fetchContent content matter]
      mono
    by (simp add: formula)
qed


theorem score_rule_witness:
  "score (analyzeAgent sample_fetch (parsed_as scenario_A sample_body) sample_file) =
     max 0 (min 100 (100 - 20 * 0 - 5 * 2)) \<and>
   score (analyzeCommand sample_fetch (parsed_as scenario_A sample_body) sample_file) =
     max 0 (min 100 (100 - 20 * 0 - 5 * 1)) \<and>
   score (analyzeSkill sample_fetch (parsed_as scenario_A sample_body) skill_with_main) =
     max 0 (min 100 (100 - 20 * 0 - 5 * 2)) \<and>
   calculate_score [''a'', ''b''] [''c''] \<le> calculate_score [''a''] []"
  using score_rule [of sample_fetch sample_file "''---''" "parsed_as scenario_A sample_body" skill_with_main
      main_file "[''a'']" "[]" "[''a'', ''b'']" "[''c'']"]
  by (simp add: sample_facts sample_main_file scenario_A_agent scenario_A_command scenario_A_skill)

text \<open>
  Claim C2 as stated fails on the short-circuit results: a failed fetch gives one issue,
  no warning and the score 0, where the rule gives 80.
\<close>

theorem score_rule_counterexample:
  "score (analyzeAgent failing_fetch no_matter sample_file) \<noteq>
   max 0 (min 100 (100 - 20 * int (length (issues (analyzeAgent failing_fetch no_matter sample_file)))
                       - 5 * int (length (warnings (analyzeAgent failing_fetch no_matter sample_file)))))"
  by (simp add: analyzeAgent_def sample_facts fetch_failed_def)


text \<open>
  Claim C5. A skill whose file set has no file named, in lower case, \<open>skill.md\<close> or
  \<open>skill.mdx\<close> gets exactly the result below, whatever the fetch and the metadata parser
  would return: neither is consulted.
\<close>

theorem skill_without_main_file:
  "list_all (\<lambda>f. toLowerCase (relativePath f) \<noteq> ''skill.md'' \<and>
                  toLowerCase (relativePath f) \<noteq> ''skill.mdx'') (files skill) \<Longrightarrow>
   analyzeSkill fetchContent matter skill =
     \<lparr>compatible = False, score = 0, issues = [''Missing SKILL.md file''],
      warnings = [], mappedTools = [], unmappedTools = [], requiredMcps = [], suggestions = []\<rparr>"
proof -
  assume a: "list_all (\<lambda>f. toLowerCase (relativePath f) \<noteq> ''skill.md'' \<and>
                  toLowerCase (relativePath f) \<noteq> ''skill.mdx'') (files skill)"
  have "find is_main_file (files skill) = None"
    using a by (simp add: find_None_iff is_main_file_def list_all_iff)
  then show ?thesis by (simp add: analyzeSkill_def)
qed

lemma skill_without_main_files:
  "list_all (\<lambda>f. toLowerCase (relativePath f) \<noteq> ''skill.md'' \<and>
                  toLowerCase (relativePath f) \<noteq> ''skill.mdx'') (files skill_without_main)"
  by code_simp

theorem skill_without_main_file_witness:
  "analyzeSkill sample_fetch (parsed_as scenario_A sample_body) skill_without_main =
     \<lparr>compatible = False, score = 0, issues = [''Missing SKILL.md file''],
      warnings = [], mappedTools = [], unmappedTools = [], requiredMcps = [], suggestions = []\<rparr>"
  using skill_without_main_file [OF skill_without_main_files] by simp

text \<open>
  Claim C7. When the fetch fails with a message, each analyzer returns a result, with
  \<open>compatible = false\<close>, the score 0, the one issue that records the message, and every
  other list empty.
\<close>

theorem fetch_failure_contained:
  "(fetchContent (file_src item) (file_srcType item) = Inl message \<longrightarrow>
      analyzeAgent fetchContent matter item =
        \<lparr>compatible = False, score = 0, issues = [''Failed to fetch content: '' @ message],
         warnings = [], mappedTools = [], unmappedTools = [], requiredMcps = [], suggestions = []\<rparr> \<and>
      analyzeCommand fetchContent matter item =
        \<lparr>compatible = False, score = 0, issues = [''Failed to fetch content: '' @ message],
         warnings = [], mappedTools = [], unmappedTools = [], requiredMcps = [], suggestions = []\<rparr>) \<and>
   (find is_main_file (files skill) = Some skillFile \<and>
    fetchContent (sf_src skillFile) (sf_srcType skillFile) = Inl message \<longrightarrow>
      analyzeSkill fetchContent matter skill =
        \<lparr>compatible = False, score = 0, issues = [''Failed to fetch content: '' @ message],
         warnings = [], mappedTools = [], unmappedTools = [], requiredMcps = [], suggestions = []\<rparr>)"
  by (simp add: analyzeAgent_def analyzeCommand_def analyzeSkill_def fetch_failed_def)

theorem fetch_failure_contained_witness:
  "analyzeAgent failing_fetch (parsed_as scenario_A sample_body) sample_file =
     \<lparr>compatible = False, score = 0,
      issues = [''Failed to fetch content: ENOENT: no such file or directory''],
      warnings = [], mappedTools = [], unmappedTools = [], requiredMcps = [], suggestions = []\<rparr> \<and>
   analyzeCommand failing_fetch (parsed_as scenario_A sample_body) sample_file =
     \<lparr>compatible = False, score = 0,
      issues = [''Failed to fetch content: ENOENT: no such file or directory''],
      warnings = [], mappedTools = [], unmappedTools = [], requiredMcps = [], suggestions = []\<rparr> \<and>
   analyzeSkill failing_fetch (parsed_as scenario_A sample_body) skill_with_main =
     \<lparr>compatible = False, score = 0,
      issues = [''Failed to fetch content: ENOENT: no such file or directory''],
      warnings = [], mappedTools = [], unmappedTools = [], requiredMcps = [], suggestions = []\<rparr>"
  using fetch_failure_contained [of failing_fetch sample_file "''ENOENT: no such file or directory''"
      "parsed_as scenario_A sample_body" skill_with_main main_file]
  by (simp add: sample_facts sample_main_file)





section \<open>Claims about the tool resolver\<close>

text \<open>
  Claim C4. The claim says that \<open>mcp__server\<close> and \<open>mcp__server__tool\<close> both pass through
  unchanged and both record the dependency \<open>server\<close>, once. The tokens do pass through,
  but the code records \<open>server__tool\<close> for the second: the character class of the server
  group contains the underscore, so the greedy group takes the whole rest of the token.
  The theorem evaluates the code on the two tokens.
\<close>

theorem mcp_server_capture:
  "MCP_TOOL_PATTERN ''mcp__server'' = Some ''server'' \<and>
   MCP_TOOL_PATTERN ''mcp__server__tool'' = Some ''server__tool'' \<and>
   t_mapped (analyzeTools [''mcp__server'', ''mcp__server__tool'']) =
     [Tok ''mcp__server'', Tok ''mcp__server__tool''] \<and>
   t_requiredMcps (analyzeTools [''mcp__server'', ''mcp__server__tool'']) = [''server'', ''server__tool'']"
  by code_simp


text \<open>
  What does hold of \<open>mapToolsForFactory\<close>: the output has no duplicates, and an entry that
  is a token is a destination tool or an MCP token. The other entries are members
  inherited from \<open>Object.prototype\<close>, for tool names that are keys of that object.
\<close>

lemma mapping_targets: "TOOL_MAPPING tool = Own_string m \<Longrightarrow> m \<in> set FACTORY_TOOLS"
  by (auto simp: TOOL_MAPPING_def TOOL_MAPPING_own_def FACTORY_TOOLS_def
      split: if_splits option.splits)

lemma mapping_inherited:
  "TOOL_MAPPING tool = Inherited k \<Longrightarrow> k = tool \<and> tool \<in> set Object_prototype_keys"
  by (auto simp: TOOL_MAPPING_def split: if_splits option.splits)

lemma map_tool_entries:
  assumes "v \<in> set (map_tool acc tool)"
  shows "v \<in> set acc \<or>
    (\<exists>t. v = Tok t \<and> (t \<in> set FACTORY_TOOLS \<or> MCP_TOOL_PATTERN t \<noteq> None)) \<or>
    (v = Proto_member tool \<and> tool \<in> set Object_prototype_keys)"
proof -
  have e: "''Execute'' \<in> set FACTORY_TOOLS"
    by (simp add: FACTORY_TOOLS_def)
  show ?thesis
    using assms e mapping_targets [of tool] mapping_inherited [of tool]
    by (auto simp: map_tool_def split: if_splits lookup.splits)
qed

lemma foldl_map_tool_entries:
  "v \<in> set (foldl map_tool acc tools) \<Longrightarrow>
   v \<in> set acc \<or>
   (\<exists>t. v = Tok t \<and> (t \<in> set FACTORY_TOOLS \<or> MCP_TOOL_PATTERN t \<noteq> None)) \<or>
   (\<exists>k. v = Proto_member k \<and> k \<in> set tools \<and> k \<in> set Object_prototype_keys)"
proof (induction tools arbitrary: acc)
  case Nil
  then show ?case by simp
next
  case (Cons t ts)
  from Cons.IH [of "map_tool acc t"] Cons.prems
  have "v \<in> set (map_tool acc t) \<or>
    (\<exists>t. v = Tok t \<and> (t \<in> set FACTORY_TOOLS \<or> MCP_TOOL_PATTERN t \<noteq> None)) \<or>
    (\<exists>k. v = Proto_member k \<and> k \<in> set ts \<and> k \<in> set Object_prototype_keys)"
    by simp
  then show ?case
    using map_tool_entries [of v acc t] by auto
qed

lemma mapToolsForFactory_entries:
  "distinct (mapToolsForFactory tools)"
  "v \<in> set (mapToolsForFactory tools) \<Longrightarrow>
   (\<exists>t. v = Tok t \<and> (t \<in> set FACTORY_TOOLS \<or> MCP_TOOL_PATTERN t \<noteq> None)) \<or>
   (\<exists>k. v = Proto_member k \<and> k \<in> set tools \<and> k \<in> set Object_prototype_keys)"
proof -
  show "distinct (mapToolsForFactory tools)"
    by (simp add: mapToolsForFactory_def uniq_def distinct_fold_set_insert)
  assume "v \<in> set (mapToolsForFactory tools)"
  then have "v \<in> set (foldl map_tool [] tools)"
    by (simp add: mapToolsForFactory_def uniq_def set_fold_set_insert)
  then show "(\<exists>t. v = Tok t \<and> (t \<in> set FACTORY_TOOLS \<or> MCP_TOOL_PATTERN t \<noteq> None)) \<or>
   (\<exists>k. v = Proto_member k \<and> k \<in> set tools \<and> k \<in> set Object_prototype_keys)"
    using foldl_map_tool_entries [of v "[]" tools] by simp
qed


text \<open>
  Claim C9. The claim says that every entry of the output of \<open>mapToolsForFactory\<close> is a
  destination tool or an MCP token, unknown tokens being dropped. For the unknown token
  \<open>constructor\<close> the lookup \<open>TOOL_MAPPING[tool]\<close> finds the inherited member of
  \<open>Object.prototype\<close>, which is truthy, and the code pushes that value: an entry that is
  no string. The theorem evaluates the code on such a list.
\<close>

theorem mapToolsForFactory_inherited_member:
  "mapToolsForFactory [''Bash'', ''constructor'', ''AskUserQuestion''] =
     [Tok ''Execute'', Proto_member ''constructor'']"
  by code_simp


section \<open>Claims about the normalizer\<close>

text \<open>
  Claim C3. The claim says that \<open>normalizeText\<close> is idempotent on its text, also when the
  header marker is requested. On the input \<open>AskUserQuestion\<close> with the marker requested,
  the first run writes a marker that names the removed token, and the second run rewrites
  that name inside the marker: the two texts differ. The theorem evaluates both runs.
\<close>

theorem normalize_rewrites_own_marker:
  "result_text (normalizeText ''AskUserQuestion'' header_options) =
     ''<!-- Factory Import Normalizer (generic): removed AskUserQuestion -->\<newline>\<newline>ask the user'' \<and>
   result_text (normalizeText (result_text (normalizeText ''AskUserQuestion'' header_options)) header_options) =
     ''<!-- Factory Import Normalizer (generic): removed ask the user -->\<newline>\<newline>ask the user''"
  by code_simp










section \<open>Claims about the command converter\<close>




end
